theory Spec2Isabelle
  imports Main
begin

section \<open>JavaScript values\<close>

text \<open>
  The middleware is TypeScript whose types are erased at run time: a cookie value, a header
  value and a response body are arbitrary JavaScript values.  Numbers are modelled as
  integers together with \<open>NaN\<close> (fractions do not occur in what is verified here);
  \<open>0\<close> stands for both zeros.  A function value carries its name, which is all that
  is observed of it here.
\<close>

datatype jsnum = NaN | Num int

datatype jsval =
    JUndefined
  | JNull
  | JBool bool
  | JNum jsnum
  | JStr string
  | JArr "jsval list"
  | JObj "(string \<times> jsval) list"
  | JFun string

datatype js_error = TypeError | SyntaxError

text \<open>\<open>!n\<close> on a number: \<open>0\<close> and \<open>NaN\<close> are falsy.\<close>

fun falsy_num :: "jsnum \<Rightarrow> bool" where
  "falsy_num NaN = True"
| "falsy_num (Num i) = (i = 0)"

text \<open>\<open>!v\<close> on any value.\<close>

fun falsy :: "jsval \<Rightarrow> bool" where
  "falsy JUndefined = True"
| "falsy JNull = True"
| "falsy (JBool b) = (\<not> b)"
| "falsy (JNum n) = falsy_num n"
| "falsy (JStr s) = (s = [])"
| "falsy (JArr xs) = False"
| "falsy (JObj kvs) = False"
| "falsy (JFun f) = False"

text \<open>
  \<open>typeof v === 'object'\<close>: true of \<open>null\<close>, arrays and objects, not of functions.
\<close>

fun typeof_object :: "jsval \<Rightarrow> bool" where
  "typeof_object JNull = True"
| "typeof_object (JArr xs) = True"
| "typeof_object (JObj kvs) = True"
| "typeof_object v = False"

text \<open>The decimal digits of a natural number, most significant first.\<close>

fun decimal :: "nat \<Rightarrow> string" where
  "decimal n = (if n < 10 then [] else decimal (n div 10)) @ [''0123456789'' ! (n mod 10)]"

declare decimal.simps [simp del]

text \<open>
  A JavaScript number is a double.  An integer of more than 53 bits stands for the double
  nearest to it (ties to the even mantissa), as a numeric literal does; \<open>ulp x\<close> is the
  distance between neighbouring doubles of the size of \<open>x\<close>.  Integers beyond the largest
  double are outside the model.
\<close>

fun bit_length :: "nat \<Rightarrow> nat" where
  "bit_length n = (if n = 0 then 0 else Suc (bit_length (n div 2)))"

declare bit_length.simps [simp del]

definition ulp :: "nat \<Rightarrow> nat" where
  "ulp x = 2 ^ (bit_length x - 53)"

definition to_double :: "nat \<Rightarrow> nat" where
  "to_double x =
     (let u = ulp x; m = x div u; rest = x mod u
      in if 2 * rest < u then m * u
         else if u < 2 * rest then (m + 1) * u
         else if even m then m * u else (m + 1) * u)"

text \<open>
  \<open>reads_as x y\<close>: the integer \<open>y\<close> rounds to the double \<open>x\<close>, so it lies within half the
  distance to each neighbour of \<open>x\<close> (the lower neighbour of a power of two is at half the
  distance), the end points included when the mantissa of \<open>x\<close> is even.  The comparison is
  made on the fourfold values to stay within the integers.
\<close>

definition reads_as :: "nat \<Rightarrow> nat \<Rightarrow> bool" where
  "reads_as x y =
     (let u = ulp x; m = x div u;
          below = (if m = 2 ^ 52 \<and> 1 < u then u else 2 * u);
          above = 2 * u
      in if even m then 4 * x \<le> 4 * y + below \<and> 4 * y \<le> 4 * x + above
         else 4 * x < 4 * y + below \<and> 4 * y < 4 * x + above)"

text \<open>
  \<open>Number.prototype.toString\<close> prints the number with the fewest significant digits that
  still reads back as \<open>x\<close>, and among those the one closest to \<open>x\<close>.  \<open>shortest\<close> tries
  one more significant digit at a time: \<open>p\<close> is the weight of the last digit kept, and the
  candidates are \<open>x\<close> rounded down and up to a multiple of \<open>p\<close>.
\<close>

fun shortest :: "nat \<Rightarrow> nat \<Rightarrow> nat \<Rightarrow> nat" where
  "shortest 0 p x = x"
| "shortest (Suc f) p x =
     (let down = (x div p) * p; up = down + p
      in if reads_as x down \<and> reads_as x up then
           (if x - down < up - x then down
            else if up - x < x - down then up
            else if even (x div p) then down else up)
         else if reads_as x down then down
         else if reads_as x up then up
         else shortest f (p div 10) x)"

definition shortest_digits :: "nat \<Rightarrow> nat" where
  "shortest_digits x =
     (if bit_length x \<le> 53 then x
      else shortest (length (decimal x)) (10 ^ (length (decimal x) - 1)) x)"

text \<open>The form \<open>d.ddde+n\<close> that numbers from \<open>10\<^sup>2\<^sup>1\<close> on are printed in.\<close>

definition exponent_form :: "nat \<Rightarrow> string" where
  "exponent_form y =
     (let ds = decimal y;
          s = rev (dropWhile (\<lambda>c. c = CHR ''0'') (rev ds))
      in (if length s = 1 then s else hd s # ''.'' @ tl s) @ ''e+'' @ decimal (length ds - 1))"

definition number_text :: "nat \<Rightarrow> string" where
  "number_text x =
     (let y = shortest_digits (to_double x)
      in if y < 10 ^ 21 then decimal y else exponent_form y)"

fun string_of_num :: "jsnum \<Rightarrow> string" where
  "string_of_num NaN = ''NaN''"
| "string_of_num (Num i) =
     (if 0 \<le> i then number_text (nat i) else CHR ''-'' # number_text (nat \<bar>i\<bar>))"

text \<open>\<open>Array.prototype.join\<close> with separator \<open>,\<close>, on elements already converted.\<close>

fun join_comma :: "string list \<Rightarrow> string" where
  "join_comma [] = []"
| "join_comma [s] = s"
| "join_comma (s # t # ss) = s @ '','' @ join_comma (t # ss)"

text \<open>
  The string conversion a template literal \<open>`${v}`\<close> applies.  An array prints its elements
  joined by commas, with \<open>null\<close> and \<open>undefined\<close> elements printed as nothing; a plain
  object prints as \<open>[object Object]\<close>, a built-in function as its native-code source text.
\<close>

fun ToString :: "jsval \<Rightarrow> string" where
  "ToString JUndefined = ''undefined''"
| "ToString JNull = ''null''"
| "ToString (JBool b) = (if b then ''true'' else ''false'')"
| "ToString (JNum n) = string_of_num n"
| "ToString (JStr s) = s"
| "ToString (JArr xs) =
     join_comma (map (\<lambda>x. if x = JUndefined \<or> x = JNull then [] else ToString x) xs)"
| "ToString (JObj kvs) = ''[object Object]''"
| "ToString (JFun f) = ''function '' @ f @ ''() { [native code] }''"

text \<open>\<open>String.prototype.toLowerCase\<close> on the ASCII letters.\<close>

definition lower_char :: "char \<Rightarrow> char" where
  "lower_char c =
     (let n = (of_char c :: nat) in if 65 \<le> n \<and> n \<le> 90 then char_of (n + 32) else c)"

definition toLowerCase :: "string \<Rightarrow> string" where
  "toLowerCase s = map lower_char s"

text \<open>\<open>s.startsWith(c)\<close> for a one-character \<open>c\<close>.\<close>

fun startsWith :: "string \<Rightarrow> char \<Rightarrow> bool" where
  "startsWith [] c = False"
| "startsWith (x # xs) c = (x = c)"

text \<open>
  An object used as a dictionary: its own properties, and whether its prototype is
  \<open>Object.prototype\<close> (as for an object literal) or \<open>null\<close>.
\<close>

record js_object =
  own :: "string \<rightharpoonup> jsval"
  inherits :: bool

text \<open>
  What a property read finds on \<open>Object.prototype\<close>: its twelve properties, of which
  \<open>constructor\<close> is the function \<open>Object\<close> and \<open>__proto__\<close> reads as the prototype of the
  object read from, \<open>Object.prototype\<close> itself, an object without enumerable properties.
\<close>

definition Object_prototype :: "string \<Rightarrow> jsval" where
  "Object_prototype k =
     (if k = ''constructor'' then JFun ''Object''
      else if k \<in> set [''__defineGetter__'', ''__defineSetter__'', ''hasOwnProperty'',
                         ''__lookupGetter__'', ''__lookupSetter__'', ''isPrototypeOf'',
                         ''propertyIsEnumerable'', ''toString'', ''valueOf'', ''toLocaleString'']
      then JFun k
      else if k = ''__proto__'' then JObj []
      else JUndefined)"

text \<open>
  The property read \<open>obj[k]\<close>: an own property first, then the prototype; \<open>undefined\<close>
  when neither has the key.
\<close>

definition get_prop :: "js_object \<Rightarrow> string \<Rightarrow> jsval" where
  "get_prop obj k =
     (case own obj k of
        Some v \<Rightarrow> v
      | None \<Rightarrow> if inherits obj then Object_prototype k else JUndefined)"

text \<open>The object literal \<open>{}\<close>.\<close>

definition empty_object :: js_object where
  "empty_object = \<lparr>own = Map.empty, inherits = True\<rparr>"

text \<open>
  \<open>JSON.parse\<close> and \<open>JSON.stringify\<close> belong to the language runtime, not to this
  package; the development is parametric in them.  \<open>JSON_parse\<close> returns \<open>None\<close> where
  the runtime throws a \<open>SyntaxError\<close>.
\<close>

record json_api =
  JSON_parse :: "string \<Rightarrow> jsval option"
  JSON_stringify :: "jsval \<Rightarrow> jsval"

section \<open>Routes and requests\<close>

text \<open>
  The \<open>type\<close> of a cache configuration is a string at run time; the switch in
  \<open>generateCacheKey\<close> compares it with four literals and has no default case.
\<close>

record cache_config =
  expire :: "jsnum option"
  type :: string
  customCookie :: "string option"

text \<open>
  The fields are the source's \<open>method\<close>, \<open>route\<close> and optional \<open>cache\<close>.
\<close>

record Route =
  httpMethod :: string
  route :: string
  cacheSpec :: "cache_config option"

text \<open>
  \<open>cookies\<close> is \<open>None\<close> when the request has no cookie mapping (no cookie parser ran):
  \<open>req.cookies\<close> is then \<open>undefined\<close>.
\<close>

record request =
  originalUrl :: string
  url :: string
  cookies :: "js_object option"
  headers :: js_object

section \<open>Responses\<close>

text \<open>
  The functions that can sit in the response's \<open>send\<close> and \<open>json\<close> slots: the host
  pipeline's own entry points, and the two closures the middleware installs on a miss.
  The closures capture the route and the cache key; the \<open>json\<close> closure also captures
  \<open>originalJson\<close>, while the \<open>send\<close> closure reads \<open>res.sendResponse\<close> when it runs.
\<close>

datatype writer =
    Host_send
  | Host_json
  | Cache_send Route string
  | Cache_json Route string writer

record response =
  send :: writer
  json :: writer
  sendResponse :: "writer option"

datatype slot = Slot_sendResponse | Slot_send | Slot_json

section \<open>Logging (log.ts)\<close>

datatype LogLevel = LL_normal | LL_debug | LL_silent

datatype severity = Log | Warn | Error | Debug

text \<open>
  What a request can be observed to do, in the order it happens: console output, store
  traffic, a response header, an assignment to one of the response's slots, a call of one
  of the host pipeline's two write entry points, and the continuation signal \<open>next()\<close>.
  A console event carries the message passed to \<open>log\<close>, before the fixed prefix is put in
  front of it.
\<close>

datatype event =
    Console severity string
  | StoreGet string
  | StoreSet string jsval jsnum
  | SetHeader string string
  | Assign slot writer
  | RawWrite jsval
  | StructuredWrite jsval
  | Next

definition log :: "LogLevel \<Rightarrow> string \<Rightarrow> severity \<Rightarrow> event list" where
  "log currentLogLevel message level =
     (if currentLogLevel = LL_silent then []
      else if level = Debug \<and> currentLogLevel \<noteq> LL_debug then []
      else [Console level message])"

section \<open>Key derivation (generateCacheKey, getAuthCookie)\<close>

definition commonAuthCookieNames :: "string list" where
  "commonAuthCookieNames =
     [''authToken'', ''accessToken'', ''refreshToken'', ''idToken'', ''jwt'', ''token'',
      ''sessionToken'', ''auth_token'', ''access_token'', ''refresh_token'', ''bearer_token'']"

definition commonAuthHeaderNames :: "string list" where
  "commonAuthHeaderNames =
     [''Authorization'', ''X-Auth-Token'', ''X-Access-Token'', ''X-Refresh-Token'',
      ''X-ID-Token'', ''X-API-key'', ''Token'', ''Auth-Token'']"

text \<open>\<open>xs.find(value => value !== undefined)\<close>; \<open>undefined\<close> when nothing is found.\<close>

definition find_defined :: "jsval list \<Rightarrow> jsval" where
  "find_defined vs = (case find (\<lambda>v. v \<noteq> JUndefined) vs of None \<Rightarrow> JUndefined | Some v \<Rightarrow> v)"

text \<open>\<open>v || null\<close>.\<close>

definition or_null :: "jsval \<Rightarrow> jsval" where
  "or_null v = (if falsy v then JNull else v)"

text \<open>
  The first assignment to \<open>authCookie\<close>.  \<open>req.cookies[name]\<close> throws a \<open>TypeError\<close>
  when \<open>req.cookies\<close> is \<open>undefined\<close>.
\<close>

definition cookie_pass :: "request \<Rightarrow> js_error + jsval" where
  "cookie_pass req =
     (case cookies req of
        None \<Rightarrow> Inl TypeError
      | Some c \<Rightarrow> Inr (or_null (find_defined (map (\<lambda>name. get_prop c name) commonAuthCookieNames))))"

text \<open>The second assignment, made when the first left a falsy value.\<close>

definition header_pass :: "request \<Rightarrow> jsval" where
  "header_pass req =
     or_null (find_defined (map (\<lambda>name. get_prop (headers req) (toLowerCase name)) commonAuthHeaderNames))"

definition getAuthCookie :: "request \<Rightarrow> js_error + jsval" where
  "getAuthCookie req =
     (case cookie_pass req of
        Inl e \<Rightarrow> Inl e
      | Inr authCookie \<Rightarrow> if falsy authCookie then Inr (header_pass req) else Inr authCookie)"

text \<open>
  \<open>generateCacheKey\<close> returns the log output it caused and either the error thrown or the
  key; \<open>None\<close> is the source's \<open>false\<close>.
\<close>

definition generateCacheKey ::
  "LogLevel \<Rightarrow> Route \<Rightarrow> request \<Rightarrow> event list \<times> (js_error + string option)" where
  "generateCacheKey lvl r req =
     (case cacheSpec r of
        None \<Rightarrow> ([], Inr None)
      | Some c \<Rightarrow>
          if type c = ''always'' then
            ([], Inr (Some (''cache:'' @ httpMethod r @ '':'' @ route r)))
          else if type c = ''per-auth-token'' then
            (case getAuthCookie req of
               Inl e \<Rightarrow> ([], Inl e)
             | Inr authCookie \<Rightarrow>
                 if falsy authCookie then
                   (log lvl ''No auth cookie found in request. Cache will not be applied. Please use per-custom-cookie and set your custom cookie name.'' Warn,
                    Inr None)
                 else
                   ([], Inr (Some (''cache:'' @ httpMethod r @ '':'' @ route r @ '':'' @ ToString authCookie))))
          else if type c = ''per-request-url'' then
            ([], Inr (Some (''cache:'' @ httpMethod r @ '':'' @ url req)))
          else if type c = ''per-custom-cookie'' then
            (case customCookie c of
               Some name \<Rightarrow>
                 if name \<noteq> [] then
                   (let cookies' = (case cookies req of None \<Rightarrow> empty_object | Some m \<Rightarrow> m);
                        v = get_prop cookies' name;
                        customCookieValue = (if falsy v then JStr [] else v)
                    in if falsy customCookieValue then
                         (log lvl (''Custom cookie \"'' @ name @ ''\" not found in request. Cache will not be applied.'') Warn,
                          Inr None)
                       else
                         ([], Inr (Some (''cache:'' @ httpMethod r @ '':'' @ route r @ '':'' @ ToString customCookieValue))))
                 else
                   (log lvl ''Custom cookie is not defined for per-custom-cookie cache type.'' Error,
                    Inr None)
             | None \<Rightarrow>
                 (log lvl ''Custom cookie is not defined for per-custom-cookie cache type.'' Error,
                  Inr None))
          else ([], Inr None))"

section \<open>The interceptor (cache, cacheMiddleware)\<close>

text \<open>
  The module-level \<open>redis\<close> handle and log level.  The store is an external collaborator:
  \<open>contents\<close> is what \<open>redis.get\<close> answers (\<open>None\<close> for \<open>null\<close>).  Each run of a piece
  of the middleware is given the world as it is at that moment, so readiness can differ
  between construction, request and write time.
\<close>

record client =
  isReady :: bool
  contents :: "string \<rightharpoonup> string"

record world =
  redis :: "client option"
  currentLogLevel :: LogLevel

definition DEFAULT_CACHE_TTL :: jsnum where
  "DEFAULT_CACHE_TTL = Num 60"

text \<open>\<open>route.cache?.expire || DEFAULT_CACHE_TTL\<close>.\<close>

definition expire_or_default :: "Route \<Rightarrow> jsnum" where
  "expire_or_default r =
     (case cacheSpec r of
        None \<Rightarrow> DEFAULT_CACHE_TTL
      | Some c \<Rightarrow>
          (case expire c of
             None \<Rightarrow> DEFAULT_CACHE_TTL
           | Some e \<Rightarrow> if falsy_num e then DEFAULT_CACHE_TTL else e))"

text \<open>\<open>!redis || !redis.isReady\<close>.\<close>

definition not_ready :: "world \<Rightarrow> bool" where
  "not_ready w = (case redis w of None \<Rightarrow> True | Some c \<Rightarrow> \<not> isReady c)"

text \<open>
  Calling a writer with a body.  The result is the events caused and the error thrown, if
  any.  A wrapper calls another writer, which may be a wrapper again when the middleware
  was installed twice on one response, so the call depth is bounded by a fuel argument and
  \<open>None\<close> means the fuel ran out.
\<close>

fun invoke ::
  "nat \<Rightarrow> json_api \<Rightarrow> world \<Rightarrow> response \<Rightarrow> writer \<Rightarrow> jsval \<Rightarrow> (event list \<times> js_error option) option" where
  "invoke 0 api w res f body = None"
| "invoke (Suc n) api w res Host_send body = Some ([RawWrite body], None)"
| "invoke (Suc n) api w res Host_json body = Some ([StructuredWrite body], None)"
| "invoke (Suc n) api w res (Cache_send r cacheKey) body =
     (if not_ready w then Some ([Next], None)
      else
        let body' = (if typeof_object body then JSON_stringify api body else body);
            evs = StoreSet cacheKey body' (expire_or_default r)
                  # log (currentLogLevel w) (''Data cached for key: '' @ cacheKey) Debug
        in case sendResponse res of
             None \<Rightarrow> Some (evs, Some TypeError)
           | Some g \<Rightarrow>
               (case invoke n api w res g body' of
                  None \<Rightarrow> None
                | Some (evs', err) \<Rightarrow> Some (evs @ evs', err)))"
| "invoke (Suc n) api w res (Cache_json r cacheKey originalJson) body =
     (if not_ready w then Some ([Next], None)
      else
        let evs = StoreSet cacheKey (JSON_stringify api body) (expire_or_default r)
                  # log (currentLogLevel w) (''JSON Data cached for key: '' @ cacheKey) Debug
        in case invoke n api w res originalJson body of
             None \<Rightarrow> None
           | Some (evs', err) \<Rightarrow> Some (evs @ evs', err))"

text \<open>
  The three assignments of the miss branch: \<open>res.sendResponse = res.send\<close>, then the
  two wrappers, the \<open>json\<close> wrapper keeping the previous \<open>res.json\<close>.
\<close>

definition install :: "Route \<Rightarrow> string \<Rightarrow> response \<Rightarrow> response" where
  "install r cacheKey res =
     res\<lparr>sendResponse := Some (send res),
         send := Cache_send r cacheKey,
         json := Cache_json r cacheKey (json res)\<rparr>"

definition install_events :: "Route \<Rightarrow> string \<Rightarrow> response \<Rightarrow> event list" where
  "install_events r cacheKey res =
     [Assign Slot_sendResponse (send res),
      Assign Slot_send (Cache_send r cacheKey),
      Assign Slot_json (Cache_json r cacheKey (json res))]"

text \<open>\<open>!data\<close> on what \<open>redis.get\<close> answered: \<open>null\<close> and the empty string are falsy.\<close>

fun no_data :: "string option \<Rightarrow> bool" where
  "no_data None = True"
| "no_data (Some d) = (d = [])"

text \<open>\<open>!cacheKey\<close> on what \<open>generateCacheKey\<close> returned.\<close>

fun no_key :: "string option \<Rightarrow> bool" where
  "no_key None = True"
| "no_key (Some k) = (k = [])"

text \<open>
  The request-time function \<open>cacheMiddleware\<close> returns for a route.  The result is the
  events caused and either the error that escaped or the response with its slots as the
  middleware left them.
\<close>

definition middleware ::
  "nat \<Rightarrow> json_api \<Rightarrow> world \<Rightarrow> Route \<Rightarrow> request \<Rightarrow> response \<Rightarrow> (event list \<times> (js_error + response)) option" where
  "middleware fuel api w r req res =
     (case redis w of
        None \<Rightarrow> Some ([Next], Inr res)
      | Some c \<Rightarrow>
          if \<not> isReady c then Some ([Next], Inr res)
          else
            (case generateCacheKey (currentLogLevel w) r req of
               (evs, Inl e) \<Rightarrow> Some (evs, Inl e)
             | (evs, Inr k) \<Rightarrow>
                 if no_key k then
                   Some (evs @ log (currentLogLevel w) ''Cache key generation failed. Cache will not be applied.'' Warn @ [Next],
                         Inr res)
                 else
                   (let cacheKey = (case k of Some s \<Rightarrow> s | None \<Rightarrow> []);
                        data = contents c cacheKey
                    in if no_data data then
                         Some (evs @ [StoreGet cacheKey]
                                 @ log (currentLogLevel w) (''Cache miss for key: '' @ cacheKey) Debug
                                 @ install_events r cacheKey res
                                 @ [Next],
                               Inr (install r cacheKey res))
                       else
                         (let dataStr = (case data of Some d \<Rightarrow> d | None \<Rightarrow> []);
                              pre = evs @ [StoreGet cacheKey]
                                      @ log (currentLogLevel w) (''Cache hit for key: '' @ cacheKey) Debug
                                      @ [SetHeader ''X-Cache'' ''HIT'']
                          in if startsWith dataStr CHR ''{'' \<or> startsWith dataStr CHR ''['' then
                               (case JSON_parse api dataStr of
                                  None \<Rightarrow> Some (pre, Inl SyntaxError)
                                | Some v \<Rightarrow>
                                    (case invoke fuel api w res (json res) v of
                                       None \<Rightarrow> None
                                     | Some (evs', None) \<Rightarrow> Some (pre @ evs', Inr res)
                                     | Some (evs', Some e) \<Rightarrow> Some (pre @ evs', Inl e)))
                             else
                               (case invoke fuel api w res (send res) (JStr dataStr) of
                                  None \<Rightarrow> None
                                | Some (evs', None) \<Rightarrow> Some (pre @ evs', Inr res)
                                | Some (evs', Some e) \<Rightarrow> Some (pre @ evs', Inl e))))))"

text \<open>
  What the factories return: the pass-through \<open>(req, res, next) => next()\<close> or the caching
  middleware of a route.
\<close>

datatype handler = PassThrough | Caching Route

definition cacheMiddleware :: "world \<Rightarrow> Route \<Rightarrow> event list \<times> handler" where
  "cacheMiddleware w r =
     (if not_ready w then
        (log (currentLogLevel w) ''Redis client is not initialized. Please call setupCache first. Cache will not be applied and next function be called.'' Error,
         PassThrough)
      else ([], Caching r))"

definition cache :: "world \<Rightarrow> Route \<Rightarrow> event list \<times> handler" where
  "cache w r =
     (case cacheSpec r of
        Some c \<Rightarrow> cacheMiddleware w r
      | None \<Rightarrow> ([], PassThrough))"

text \<open>Running a returned handler on a request.\<close>

fun run ::
  "nat \<Rightarrow> json_api \<Rightarrow> world \<Rightarrow> handler \<Rightarrow> request \<Rightarrow> response \<Rightarrow> (event list \<times> (js_error + response)) option" where
  "run fuel api w PassThrough req res = Some ([Next], Inr res)"
| "run fuel api w (Caching r) req res = middleware fuel api w r req res"

section \<open>The cookie pass as the specification words it\<close>

text \<open>
  Following the specification's words, not the source: scan the fixed ordered list of
  cookie names against the request's cookie mapping and return the value of the first name
  whose value is defined, whatever that value is; \<open>null\<close> when no listed cookie is
  defined.
\<close>

definition spec_cookie_pass :: "js_object \<Rightarrow> jsval" where
  "spec_cookie_pass c =
     (case find (\<lambda>name. get_prop c name \<noteq> JUndefined) commonAuthCookieNames of
        None \<Rightarrow> JNull
      | Some name \<Rightarrow> get_prop c name)"

section \<open>Example inputs\<close>

text \<open>
  The routes of the package's README and the request, response and store of its test file.
  \<open>example_api\<close> is a JSON runtime cut down to what the examples use: it parses the
  text \<open>{}\<close> to the empty object and rejects the text \<open>[INFO] ok\<close>, as every JSON runtime
  does, and it serialises the empty object to \<open>{}\<close>.  It answers as it does elsewhere only
  to be total, and no example uses it there.
\<close>

definition example_api :: json_api where
  "example_api =
     \<lparr>JSON_parse = (\<lambda>s. if s = ''{}'' then Some (JObj []) else None),
      JSON_stringify = (\<lambda>v. if v = JObj [] then JStr ''{}'' else JUndefined)\<rparr>"

definition route_plain :: Route where
  "route_plain = \<lparr>httpMethod = ''GET'', route = ''/health'', cacheSpec = None\<rparr>"

definition route_users :: Route where
  "route_users =
     \<lparr>httpMethod = ''GET'', route = ''/users'',
      cacheSpec = Some \<lparr>expire = Some (Num 120), type = ''always'', customCookie = None\<rparr>\<rparr>"

definition route_profile :: Route where
  "route_profile =
     \<lparr>httpMethod = ''GET'', route = ''/profile'',
      cacheSpec = Some \<lparr>expire = Some (Num 120), type = ''per-auth-token'', customCookie = None\<rparr>\<rparr>"

definition route_search :: Route where
  "route_search =
     \<lparr>httpMethod = ''GET'', route = ''/search'',
      cacheSpec = Some \<lparr>expire = Some (Num 60), type = ''per-request-url'', customCookie = None\<rparr>\<rparr>"

definition route_cart :: Route where
  "route_cart =
     \<lparr>httpMethod = ''GET'', route = ''/cart'',
      cacheSpec = Some \<lparr>expire = Some (Num 600), type = ''per-custom-cookie'', customCookie = Some ''cartId''\<rparr>\<rparr>"

definition req_users :: request where
  "req_users =
     \<lparr>originalUrl = ''/users'', url = ''/users'', cookies = Some empty_object,
      headers = empty_object\<rparr>"

definition res_host :: response where
  "res_host = \<lparr>send = Host_send, json = Host_json, sendResponse = None\<rparr>"

definition world_ready :: "(string \<rightharpoonup> string) \<Rightarrow> world" where
  "world_ready m = \<lparr>redis = Some \<lparr>isReady = True, contents = m\<rparr>, currentLogLevel = LL_debug\<rparr>"

definition world_unready :: world where
  "world_unready = \<lparr>redis = Some \<lparr>isReady = False, contents = Map.empty\<rparr>, currentLogLevel = LL_debug\<rparr>"

definition route_find :: Route where
  "route_find =
     \<lparr>httpMethod = ''GET'', route = ''/find'',
      cacheSpec = Some \<lparr>expire = Some (Num 60), type = ''per-request-url'', customCookie = None\<rparr>\<rparr>"

definition route_other :: Route where
  "route_other =
     \<lparr>httpMethod = ''GET'', route = ''/users'',
      cacheSpec = Some \<lparr>expire = None, type = ''per-user'', customCookie = None\<rparr>\<rparr>"

definition req_search :: request where
  "req_search =
     \<lparr>originalUrl = ''/search?q=tea'', url = ''/search?q=tea'', cookies = Some empty_object,
      headers = empty_object\<rparr>"

definition route_cart_unnamed :: Route where
  "route_cart_unnamed =
     \<lparr>httpMethod = ''GET'', route = ''/cart'',
      cacheSpec = Some \<lparr>expire = Some (Num 600), type = ''per-custom-cookie'', customCookie = None\<rparr>\<rparr>"

definition route_users_zero :: Route where
  "route_users_zero =
     \<lparr>httpMethod = ''GET'', route = ''/users'',
      cacheSpec = Some \<lparr>expire = Some (Num 0), type = ''always'', customCookie = None\<rparr>\<rparr>"

definition req_cart :: request where
  "req_cart =
     \<lparr>originalUrl = ''/cart'', url = ''/cart'',
      cookies = Some \<lparr>own = [''cartId'' \<mapsto> JStr ''xyz''], inherits = True\<rparr>,
      headers = empty_object\<rparr>"

definition cookies_empty_token :: js_object where
  "cookies_empty_token =
     \<lparr>own = [''authToken'' \<mapsto> JStr [], ''jwt'' \<mapsto> JStr ''abc''], inherits = True\<rparr>"

definition req_empty_token :: request where
  "req_empty_token =
     \<lparr>originalUrl = ''/profile'', url = ''/profile'', cookies = Some cookies_empty_token,
      headers = \<lparr>own = [''authorization'' \<mapsto> JStr ''Bearer h''], inherits = True\<rparr>\<rparr>"

definition req_jwt :: request where
  "req_jwt =
     \<lparr>originalUrl = ''/profile'', url = ''/profile'',
      cookies = Some \<lparr>own = [''jwt'' \<mapsto> JStr ''abc''], inherits = True\<rparr>,
      headers = \<lparr>own = [''authorization'' \<mapsto> JStr ''Bearer h''], inherits = True\<rparr>\<rparr>"

definition req_no_cookies :: request where
  "req_no_cookies =
     \<lparr>originalUrl = ''/profile'', url = ''/profile'', cookies = None,
      headers = \<lparr>own = [''authorization'' \<mapsto> JStr ''Bearer h''], inherits = True\<rparr>\<rparr>"

definition route_users_default :: Route where
  "route_users_default =
     \<lparr>httpMethod = ''GET'', route = ''/users'',
      cacheSpec = Some \<lparr>expire = None, type = ''always'', customCookie = None\<rparr>\<rparr>"

definition route_cart_constructor :: Route where
  "route_cart_constructor =
     \<lparr>httpMethod = ''GET'', route = ''/cart'',
      cacheSpec = Some \<lparr>expire = Some (Num 600), type = ''per-custom-cookie'',
                        customCookie = Some ''constructor''\<rparr>\<rparr>"

definition req_cart_no_parser :: request where
  "req_cart_no_parser =
     \<lparr>originalUrl = ''/cart'', url = ''/cart'', cookies = None, headers = empty_object\<rparr>"

section \<open>The printed form of numbers\<close>

text \<open>
  The string conversion of numbers at some values: small integers, an integer that is not a
  double, and integers on either side of \<open>10\<^sup>2\<^sup>1\<close>, from where on the exponent form is
  used.
\<close>

lemmas number_simps = number_text_def shortest_digits_def to_double_def ulp_def reads_as_def
  exponent_form_def bit_length.simps decimal.simps Let_def

lemma number_text_examples:
  "ToString (JNum (Num 0)) = ''0''"
  "ToString (JNum (Num 120)) = ''120''"
  "ToString (JNum (Num (- 7))) = ''-7''"
  "ToString (JNum (Num 9007199254740993)) = ''9007199254740992''"
  "ToString (JNum (Num 18446744073709551616)) = ''18446744073709552000''"
  "ToString (JNum (Num 1000000000000000000000)) = ''1e+21''"
  "ToString (JNum (Num 1180591620717411303424)) = ''1.1805916207174113e+21''"
  by (simp_all add: number_simps)

section \<open>Routes without a cache configuration\<close>

text \<open>
  Claim C8.  For a route whose cache configuration is absent, the factory \<open>cache\<close> logs
  nothing and returns the pass-through handler, whatever the state of the store handle.
  Run on any request and response, in any world, that handler causes exactly one event, the
  continuation signal: there is no store read, no store write and no assignment to a slot of
  the response, and the response comes back as it was passed in.
\<close>

theorem cache_absent_is_pass_through:
  assumes "cacheSpec r = None"
  shows "cache w r = ([], PassThrough) \<and>
         run fuel api w' (snd (cache w r)) req res = Some ([Next], Inr res)"
  using assms by (simp add: cache_def)

theorem cache_absent_is_pass_through_witness:
  "cacheSpec route_plain = None \<and>
   cache world_unready route_plain = ([], PassThrough) \<and>
   run 0 example_api (world_ready Map.empty) (snd (cache world_unready route_plain)) req_users res_host
     = Some ([Next], Inr res_host)"
proof -
  have h: "cacheSpec route_plain = None"
    by (simp add: route_plain_def)
  show ?thesis
    by (rule conjI [OF h cache_absent_is_pass_through [OF h]])
qed

section \<open>Key derivation\<close>

text \<open>
  Claim C9.  For the \<open>per-request-url\<close> variant the derived key is
  \<open>cache:<method>:<request URL>\<close>, and the declared route path is no part of it: two routes
  with the same method and the same \<open>per-request-url\<close> cache configuration derive the
  same key for every request, whatever their route paths are.
\<close>

theorem per_request_url_key_ignores_route_path:
  assumes "cacheSpec r1 = Some c" and "cacheSpec r2 = Some c" and "type c = ''per-request-url''"
    and "httpMethod r2 = httpMethod r1"
  shows "generateCacheKey lvl r1 req = ([], Inr (Some (''cache:'' @ httpMethod r1 @ '':'' @ url req))) \<and>
         generateCacheKey lvl r2 req = generateCacheKey lvl r1 req"
  using assms by (simp add: generateCacheKey_def)

theorem per_request_url_key_ignores_route_path_witness:
  "route route_search \<noteq> route route_find \<and>
   generateCacheKey LL_normal route_search req_search = ([], Inr (Some ''cache:GET:/search?q=tea'')) \<and>
   generateCacheKey LL_normal route_find req_search = generateCacheKey LL_normal route_search req_search"
proof -
  have c1: "cacheSpec route_search = Some \<lparr>expire = Some (Num 60), type = ''per-request-url'', customCookie = None\<rparr>"
    by (simp add: route_search_def)
  have c2: "cacheSpec route_find = Some \<lparr>expire = Some (Num 60), type = ''per-request-url'', customCookie = None\<rparr>"
    by (simp add: route_find_def)
  have t: "type \<lparr>expire = Some (Num 60), type = ''per-request-url'', customCookie = None\<rparr> = ''per-request-url''"
    by simp
  have m: "httpMethod route_find = httpMethod route_search"
    by (simp add: route_find_def route_search_def)
  have d: "route route_search \<noteq> route route_find"
    by (simp add: route_find_def route_search_def)
  have k: "''cache:'' @ httpMethod route_search @ '':'' @ url req_search = ''cache:GET:/search?q=tea''"
    by (simp add: route_search_def req_search_def)
  have "generateCacheKey LL_normal route_search req_search = ([], Inr (Some ''cache:GET:/search?q=tea'')) \<and>
        generateCacheKey LL_normal route_find req_search = generateCacheKey LL_normal route_search req_search"
    using per_request_url_key_ignores_route_path [OF c1 c2 t m, of LL_normal req_search]
    unfolding k .
  then show ?thesis
    by (rule conjI [OF d])
qed

text \<open>A cache type outside the four literals of the switch falls through to \<open>return false\<close>.\<close>

lemma generateCacheKey_unrecognised:
  assumes "cacheSpec r = Some c"
    and "type c \<noteq> ''always''" and "type c \<noteq> ''per-auth-token''"
    and "type c \<noteq> ''per-request-url''" and "type c \<noteq> ''per-custom-cookie''"
  shows "generateCacheKey lvl r req = ([], Inr None)"
  using assms by (simp add: generateCacheKey_def)

text \<open>
  Claim C10.  For a route whose cache configuration is present but whose type is none of
  \<open>always\<close>, \<open>per-auth-token\<close>, \<open>per-request-url\<close> and \<open>per-custom-cookie\<close>, key
  derivation returns the not-cacheable signal and logs nothing.  With the store ready, the
  middleware then logs the generic key-generation warning and nothing else, signals
  continuation, touches neither the store nor the response, and raises nothing.
\<close>

theorem unrecognised_type_silently_not_cacheable:
  assumes "cacheSpec r = Some c"
    and "type c \<notin> {''always'', ''per-auth-token'', ''per-request-url'', ''per-custom-cookie''}"
    and "redis w = Some cl" and "isReady cl"
  shows "generateCacheKey lvl r req = ([], Inr None) \<and>
         middleware fuel api w r req res =
           Some (log (currentLogLevel w) ''Cache key generation failed. Cache will not be applied.'' Warn @ [Next],
                 Inr res)"
proof -
  have k: "\<And>l. generateCacheKey l r req = ([], Inr None)"
    using assms(1,2) by (intro generateCacheKey_unrecognised) auto
  show ?thesis
    using assms(3,4) by (simp add: k middleware_def)
qed

theorem unrecognised_type_silently_not_cacheable_witness:
  "generateCacheKey LL_debug route_other req_users = ([], Inr None) \<and>
   middleware 0 example_api (world_ready Map.empty) route_other req_users res_host =
     Some ([Console Warn ''Cache key generation failed. Cache will not be applied.'', Next], Inr res_host)"
proof -
  have c: "cacheSpec route_other = Some \<lparr>expire = None, type = ''per-user'', customCookie = None\<rparr>"
    by (simp add: route_other_def)
  have t: "type \<lparr>expire = None, type = ''per-user'', customCookie = None\<rparr>
             \<notin> {''always'', ''per-auth-token'', ''per-request-url'', ''per-custom-cookie''}"
    by simp
  have w: "redis (world_ready Map.empty) = Some \<lparr>isReady = True, contents = Map.empty\<rparr>"
    by (simp add: world_ready_def)
  have i: "isReady \<lparr>isReady = True, contents = Map.empty :: string \<rightharpoonup> string\<rparr>"
    by simp
  have l: "log (currentLogLevel (world_ready Map.empty)) ''Cache key generation failed. Cache will not be applied.'' Warn @ [Next]
             = [Console Warn ''Cache key generation failed. Cache will not be applied.'', Next]"
    by (simp add: world_ready_def log_def)
  from unrecognised_type_silently_not_cacheable [OF c t w i, of LL_debug req_users 0 example_api res_host]
  show ?thesis unfolding l .
qed

text \<open>What \<open>log\<close> emits for a severity other than \<open>debug\<close>.\<close>

lemma log_not_debug:
  "level \<noteq> Debug \<Longrightarrow> log lvl m level = (if lvl = LL_silent then [] else [Console level m])"
  by (simp add: log_def)

text \<open>
  The three outcomes of the \<open>per-custom-cookie\<close> case, by the value that
  \<open>cookies[name]\<close> reads from \<open>req.cookies || {}\<close>.
\<close>

lemma custom_cookie_unset:
  assumes "cacheSpec r = Some c" and "type c = ''per-custom-cookie''"
    and "customCookie c = None \<or> customCookie c = Some []"
  shows "generateCacheKey lvl r req =
           (log lvl ''Custom cookie is not defined for per-custom-cookie cache type.'' Error, Inr None)"
  using assms by (auto simp add: generateCacheKey_def)

lemma custom_cookie_falsy:
  assumes "cacheSpec r = Some c" and "type c = ''per-custom-cookie''"
    and "customCookie c = Some name" and "name \<noteq> []"
    and "falsy (get_prop (case cookies req of None \<Rightarrow> empty_object | Some m \<Rightarrow> m) name)"
  shows "generateCacheKey lvl r req =
           (log lvl (''Custom cookie \"'' @ name @ ''\" not found in request. Cache will not be applied.'') Warn,
            Inr None)"
  using assms by (simp add: generateCacheKey_def Let_def)

lemma custom_cookie_truthy:
  assumes "cacheSpec r = Some c" and "type c = ''per-custom-cookie''"
    and "customCookie c = Some name" and "name \<noteq> []"
    and "get_prop (case cookies req of None \<Rightarrow> empty_object | Some m \<Rightarrow> m) name = v"
    and "\<not> falsy v"
  shows "generateCacheKey lvl r req =
           ([], Inr (Some (''cache:'' @ httpMethod r @ '':'' @ route r @ '':'' @ ToString v)))"
  using assms by (auto simp add: generateCacheKey_def Let_def)

text \<open>
  A cookie that the request does not carry, or carries empty, reads as a falsy value when
  \<open>Object.prototype\<close> has no property of its name.
\<close>

lemma absent_or_empty_falsy:
  assumes "Object_prototype name = JUndefined"
    and "cookies req = None \<or>
         (\<exists>m. cookies req = Some m \<and> (own m name = None \<or> own m name = Some (JStr [])))"
  shows "falsy (get_prop (case cookies req of None \<Rightarrow> empty_object | Some m \<Rightarrow> m) name)"
  using assms by (auto simp add: get_prop_def empty_object_def)

lemma custom_cookie_absent_warns:
  assumes "cacheSpec r = Some c" and "type c = ''per-custom-cookie''"
    and "customCookie c = Some name" and "name \<noteq> []"
    and "Object_prototype name = JUndefined"
    and "cookies req = None \<or>
         (\<exists>m. cookies req = Some m \<and> (own m name = None \<or> own m name = Some (JStr [])))"
  shows "generateCacheKey lvl r req =
           (if lvl = LL_silent then []
            else [Console Warn (''Custom cookie \"'' @ name @ ''\" not found in request. Cache will not be applied.'')],
            Inr None)"
  using custom_cookie_falsy [OF assms(1-4) absent_or_empty_falsy [OF assms(5,6)], of lvl]
  by (simp add: log_not_debug)

text \<open>
  Claim C6 says that a \<open>per-custom-cookie\<close> route whose cookie name is set logs a warning
  and returns the not-cacheable signal whenever the named cookie is absent from the request.
  The code reads \<open>cookies[name]\<close> from \<open>req.cookies || {}\<close> with a plain property read,
  which also finds what an object literal inherits.  For the cookie name \<open>constructor\<close> and
  a request that carries no cookie at all, with no cookie mapping or with an empty one, the
  read yields the function \<open>Object\<close>, which is truthy: no warning is logged and a key is
  derived from the function's source text, one key for every such request.  The same
  requests to the README's \<open>cartId\<close> route get the warning and no key.
\<close>

theorem inherited_cookie_name_derives_key:
  "generateCacheKey LL_normal route_cart_constructor req_cart_no_parser =
     ([], Inr (Some ''cache:GET:/cart:function Object() { [native code] }'')) \<and>
   generateCacheKey LL_normal route_cart_constructor req_users =
     ([], Inr (Some ''cache:GET:/cart:function Object() { [native code] }'')) \<and>
   generateCacheKey LL_normal route_cart req_cart_no_parser =
     ([Console Warn ''Custom cookie \"cartId\" not found in request. Cache will not be applied.''],
      Inr None)"
proof -
  have a: "generateCacheKey LL_normal route_cart_constructor req_cart_no_parser =
     ([], Inr (Some ''cache:GET:/cart:function Object() { [native code] }''))"
    by (simp add: generateCacheKey_def route_cart_constructor_def req_cart_no_parser_def
        get_prop_def empty_object_def Object_prototype_def)
  have b: "generateCacheKey LL_normal route_cart_constructor req_users =
     ([], Inr (Some ''cache:GET:/cart:function Object() { [native code] }''))"
    by (simp add: generateCacheKey_def route_cart_constructor_def req_users_def
        get_prop_def empty_object_def Object_prototype_def)
  have c: "generateCacheKey LL_normal route_cart req_cart_no_parser =
     ([Console Warn ''Custom cookie \"cartId\" not found in request. Cache will not be applied.''],
      Inr None)"
    by (simp add: generateCacheKey_def route_cart_def req_cart_no_parser_def
        get_prop_def empty_object_def Object_prototype_def log_def)
  from a b c show ?thesis
    by (intro conjI)
qed

section \<open>The miss path and the write wrappers\<close>

text \<open>A derived key comes without log output and is never the empty string.\<close>

lemma generateCacheKey_key:
  assumes "generateCacheKey lvl r req = (evs, Inr (Some k))"
  shows "evs = [] \<and> k \<noteq> []"
  using assms
  by (auto simp add: generateCacheKey_def Let_def split: option.splits if_splits sum.splits)

text \<open>The two wrappers, run with the store ready and the host's entry points behind them.\<close>

lemma invoke_Cache_send_host:
  assumes "\<not> not_ready w" and "sendResponse res = Some Host_send"
  shows "invoke (Suc (Suc n)) api w res (Cache_send r k) body =
           Some (StoreSet k (if typeof_object body then JSON_stringify api body else body) (expire_or_default r)
                   # log (currentLogLevel w) (''Data cached for key: '' @ k) Debug
                   @ [RawWrite (if typeof_object body then JSON_stringify api body else body)],
                 None)"
  using assms by (simp add: Let_def)

lemma invoke_Cache_json_host:
  assumes "\<not> not_ready w"
  shows "invoke (Suc (Suc n)) api w res (Cache_json r k Host_json) body =
           Some (StoreSet k (JSON_stringify api body) (expire_or_default r)
                   # log (currentLogLevel w) (''JSON Data cached for key: '' @ k) Debug
                   @ [StructuredWrite body],
                 None)"
  using assms by (simp add: Let_def)

lemma install_host:
  assumes "send res = Host_send" and "json res = Host_json"
  shows "send (install r k res) = Cache_send r k"
    and "json (install r k res) = Cache_json r k Host_json"
    and "sendResponse (install r k res) = Some Host_send"
  using assms by (simp_all add: install_def)

lemma expire_or_default_cases:
  assumes "cacheSpec r = Some c"
  shows "expire_or_default r =
           (case expire c of
              None \<Rightarrow> Num 60
            | Some e \<Rightarrow> if e = Num 0 \<or> e = NaN then Num 60 else e)"
proof (cases "expire c")
  case None
  then show ?thesis using assms by (simp add: expire_or_default_def DEFAULT_CACHE_TTL_def)
next
  case (Some e)
  then show ?thesis using assms
    by (cases e) (simp_all add: expire_or_default_def DEFAULT_CACHE_TTL_def)
qed

text \<open>
  Claim C7.  On a miss the middleware installs its two wrappers on the response.  Whichever
  of them the handler then calls, with the store ready, the \<open>set\<close> call it makes carries a
  time to live of exactly 60 when the route's \<open>expire\<close> is omitted or falsy (\<open>0\<close> or
  \<open>NaN\<close>), and the configured \<open>expire\<close> otherwise.
\<close>

theorem stored_ttl_defaults_to_sixty:
  fixes c :: cache_config
  defines "ttl \<equiv> (case expire c of None \<Rightarrow> Num 60 | Some e \<Rightarrow> if e = Num 0 \<or> e = NaN then Num 60 else e)"
  assumes "cacheSpec r = Some c" and "\<not> not_ready w"
    and "send res = Host_send" and "json res = Host_json"
  shows "invoke (Suc (Suc n)) api w (install r k res) (send (install r k res)) body =
           Some (StoreSet k (if typeof_object body then JSON_stringify api body else body) ttl
                   # log (currentLogLevel w) (''Data cached for key: '' @ k) Debug
                   @ [RawWrite (if typeof_object body then JSON_stringify api body else body)],
                 None) \<and>
         invoke (Suc (Suc n)) api w (install r k res) (json (install r k res)) body =
           Some (StoreSet k (JSON_stringify api body) ttl
                   # log (currentLogLevel w) (''JSON Data cached for key: '' @ k) Debug
                   @ [StructuredWrite body],
                 None)"
proof -
  have t: "expire_or_default r = ttl"
    unfolding ttl_def by (rule expire_or_default_cases) fact
  have s: "sendResponse (install r k res) = Some Host_send"
    by (rule install_host) fact+
  show ?thesis
    unfolding install_host(1,2) [OF assms(4,5)]
    using invoke_Cache_send_host [OF assms(3) s, of n api r k body]
          invoke_Cache_json_host [OF assms(3), of n api "install r k res" r k body]
    by (simp only: t simp_thms)
qed

theorem stored_ttl_defaults_to_sixty_witness:
  "invoke (Suc (Suc 0)) example_api (world_ready Map.empty)
     (install route_users_zero ''cache:GET:/users'' res_host)
     (send (install route_users_zero ''cache:GET:/users'' res_host)) (JStr ''hello'') =
     Some ([StoreSet ''cache:GET:/users'' (JStr ''hello'') (Num 60),
            Console Debug ''Data cached for key: cache:GET:/users'',
            RawWrite (JStr ''hello'')], None) \<and>
   invoke (Suc (Suc 0)) example_api (world_ready Map.empty)
     (install route_users ''cache:GET:/users'' res_host)
     (json (install route_users ''cache:GET:/users'' res_host)) (JObj []) =
     Some ([StoreSet ''cache:GET:/users'' (JStr ''{}'') (Num 120),
            Console Debug ''JSON Data cached for key: cache:GET:/users'',
            StructuredWrite (JObj [])], None)"
proof -
  have z: "cacheSpec route_users_zero = Some \<lparr>expire = Some (Num 0), type = ''always'', customCookie = None\<rparr>"
    by (simp add: route_users_zero_def)
  have u: "cacheSpec route_users = Some \<lparr>expire = Some (Num 120), type = ''always'', customCookie = None\<rparr>"
    by (simp add: route_users_def)
  have r: "\<not> not_ready (world_ready Map.empty)"
    by (simp add: not_ready_def world_ready_def)
  have s: "send res_host = Host_send" and j: "json res_host = Host_json"
    by (simp_all add: res_host_def)
  have a: "invoke (Suc (Suc 0)) example_api (world_ready Map.empty)
     (install route_users_zero ''cache:GET:/users'' res_host)
     (send (install route_users_zero ''cache:GET:/users'' res_host)) (JStr ''hello'') =
     Some ([StoreSet ''cache:GET:/users'' (JStr ''hello'') (Num 60),
            Console Debug ''Data cached for key: cache:GET:/users'',
            RawWrite (JStr ''hello'')], None)"
    using stored_ttl_defaults_to_sixty [OF z r s j, of 0 example_api "''cache:GET:/users''" "JStr ''hello''"]
    by (simp add: log_def world_ready_def)
  have b: "invoke (Suc (Suc 0)) example_api (world_ready Map.empty)
     (install route_users ''cache:GET:/users'' res_host)
     (json (install route_users ''cache:GET:/users'' res_host)) (JObj []) =
     Some ([StoreSet ''cache:GET:/users'' (JStr ''{}'') (Num 120),
            Console Debug ''JSON Data cached for key: cache:GET:/users'',
            StructuredWrite (JObj [])], None)"
    using stored_ttl_defaults_to_sixty [OF u r s j, of 0 example_api "''cache:GET:/users''" "JObj []"]
    by (simp add: log_def world_ready_def example_api_def)
  from a b show ?thesis
    by (rule conjI)
qed

text \<open>The middleware on a miss.\<close>

lemma middleware_miss:
  assumes "redis w = Some cl" and "isReady cl"
    and "generateCacheKey (currentLogLevel w) r req = (evs, Inr (Some k))"
    and "contents cl k = None \<or> contents cl k = Some []"
  shows "middleware fuel api w r req res =
           Some ([StoreGet k] @ log (currentLogLevel w) (''Cache miss for key: '' @ k) Debug
                   @ install_events r k res @ [Next],
                 Inr (install r k res))"
proof -
  have e: "evs = []" and k: "k \<noteq> []"
    using generateCacheKey_key [OF assms(3)] by simp_all
  have n: "no_data (contents cl k)"
    using assms(4) by auto
  show ?thesis
    using assms(1,2) n k by (simp add: middleware_def assms(3) e Let_def)
qed

text \<open>
  Claim C4.  With the store ready, a key \<open>k\<close> derived for the route and the lookup of
  \<open>k\<close> answering nothing (\<open>null\<close> or the empty string), the middleware reads the key,
  assigns \<open>res.sendResponse\<close>, \<open>res.send\<close> and \<open>res.json\<close>, and only then signals
  continuation; it raises nothing and leaves both write slots of the response holding its
  wrappers.  When the handler afterwards raw-writes a string \<open>s\<close>, with the store still
  ready, the store receives \<open>set(k, s)\<close> with the route's time to live (the configured
  \<open>expire\<close>, or 60), and the host's raw-write entry point is called with the same \<open>s\<close>.
  The response is one whose entry points are the host's own when the middleware runs.
\<close>

text \<open>
  The raw-write wrapper with the store ready: the \<open>set\<close> call, the debug message, then a
  call of whatever \<open>res.sendResponse\<close> holds, with the body that was stored.
\<close>

lemma invoke_Cache_send_ready:
  assumes "\<not> not_ready w" and "sendResponse res = Some g"
  shows "invoke (Suc n) api w res (Cache_send r k) body =
           (case invoke n api w res g (if typeof_object body then JSON_stringify api body else body) of
              None \<Rightarrow> None
            | Some (evs', err) \<Rightarrow>
                Some ([StoreSet k (if typeof_object body then JSON_stringify api body else body)
                         (expire_or_default r)]
                        @ log (currentLogLevel w) (''Data cached for key: '' @ k) Debug @ evs',
                      err))"
  using assms by (simp add: Let_def split: option.splits)

text \<open>
  When \<open>res.sendResponse\<close> holds the very wrapper that is running, the wrapper calls itself
  again and again: no call depth lets the write return.
\<close>

lemma invoke_saved_wrapper_never_returns:
  assumes "\<not> not_ready w" and "sendResponse res = Some (Cache_send r k)"
  shows "invoke n api w res (Cache_send r k) body = None"
proof (induction n arbitrary: body)
  case 0
  show ?case by simp
next
  case (Suc n)
  show ?case
    using assms by (simp add: Let_def Suc.IH)
qed

text \<open>Facts about the example store and the key of the test file's route.\<close>

lemma world_ready_facts:
  "redis (world_ready m) = Some \<lparr>isReady = True, contents = m\<rparr>"
  "currentLogLevel (world_ready m) = LL_debug"
  "\<not> not_ready (world_ready m)"
  by (simp_all add: world_ready_def not_ready_def)

lemma users_key:
  "generateCacheKey lvl route_users req = ([], Inr (Some ''cache:GET:/users''))"
  "generateCacheKey lvl route_users_default req = ([], Inr (Some ''cache:GET:/users''))"
  by (simp_all add: generateCacheKey_def route_users_def route_users_default_def)

text \<open>
  Claim C4, as stated: after a miss, when the handler raw-writes a string, the store
  receives the \<open>set\<close> call and the original raw write delivers the body.  It fails in two
  situations that the claim does not exclude.  When the store is no longer ready at the time
  of the write, the wrapper makes no \<open>set\<close> call and delivers nothing; it signals
  continuation again.  And when the response already carries the middleware's wrapper (a
  second cache middleware for the route runs on the same response and misses as well),
  \<open>res.sendResponse\<close> is overwritten with that wrapper, which then calls itself through
  \<open>res.sendResponse\<close> without end: no call depth suffices for the write to return, and the
  host's raw write is never reached.
\<close>

theorem miss_then_write_counterexample:
  "invoke (Suc (Suc 0)) example_api world_unready
     (install route_users ''cache:GET:/users'' res_host)
     (send (install route_users ''cache:GET:/users'' res_host)) (JStr ''hello'')
     = Some ([Next], None) \<and>
   middleware 0 example_api (world_ready Map.empty) route_users req_users
     (install route_users ''cache:GET:/users'' res_host) =
     Some ([StoreGet ''cache:GET:/users'',
            Console Debug ''Cache miss for key: cache:GET:/users'',
            Assign Slot_sendResponse (Cache_send route_users ''cache:GET:/users''),
            Assign Slot_send (Cache_send route_users ''cache:GET:/users''),
            Assign Slot_json (Cache_json route_users ''cache:GET:/users''
                                (Cache_json route_users ''cache:GET:/users'' Host_json)),
            Next],
           Inr (install route_users ''cache:GET:/users''
                  (install route_users ''cache:GET:/users'' res_host))) \<and>
   (\<forall>n. invoke n example_api (world_ready Map.empty)
          (install route_users ''cache:GET:/users''
             (install route_users ''cache:GET:/users'' res_host))
          (send (install route_users ''cache:GET:/users''
                   (install route_users ''cache:GET:/users'' res_host)))
          (JStr ''hello'') = None)"
proof -
  have a: "invoke (Suc (Suc 0)) example_api world_unready
     (install route_users ''cache:GET:/users'' res_host)
     (send (install route_users ''cache:GET:/users'' res_host)) (JStr ''hello'')
     = Some ([Next], None)"
    by (simp add: install_def not_ready_def world_unready_def)
  have b: "middleware 0 example_api (world_ready Map.empty) route_users req_users
     (install route_users ''cache:GET:/users'' res_host) =
     Some ([StoreGet ''cache:GET:/users'',
            Console Debug ''Cache miss for key: cache:GET:/users'',
            Assign Slot_sendResponse (Cache_send route_users ''cache:GET:/users''),
            Assign Slot_send (Cache_send route_users ''cache:GET:/users''),
            Assign Slot_json (Cache_json route_users ''cache:GET:/users''
                                (Cache_json route_users ''cache:GET:/users'' Host_json)),
            Next],
           Inr (install route_users ''cache:GET:/users''
                  (install route_users ''cache:GET:/users'' res_host)))"
    by (simp add: middleware_def world_ready_def users_key log_def install_events_def Let_def
        install_def res_host_def)
  have s: "sendResponse (install route_users ''cache:GET:/users''
                          (install route_users ''cache:GET:/users'' res_host))
             = Some (Cache_send route_users ''cache:GET:/users'')"
    by (simp add: install_def)
  have t: "send (install route_users ''cache:GET:/users''
                   (install route_users ''cache:GET:/users'' res_host))
             = Cache_send route_users ''cache:GET:/users''"
    by (simp add: install_def)
  have c: "\<forall>n. invoke n example_api (world_ready Map.empty)
          (install route_users ''cache:GET:/users''
             (install route_users ''cache:GET:/users'' res_host))
          (send (install route_users ''cache:GET:/users''
                   (install route_users ''cache:GET:/users'' res_host)))
          (JStr ''hello'') = None"
    unfolding t using invoke_saved_wrapper_never_returns [OF world_ready_facts(3) s] by blast
  from a b c show ?thesis
    by (intro conjI)
qed

text \<open>
  Claim C4, amended.  For a route with a cache configuration, with the store ready, a key
  \<open>k\<close> derived and the lookup of \<open>k\<close> answering nothing (\<open>null\<close> or the empty string),
  the middleware reads the key, assigns \<open>res.sendResponse\<close>, \<open>res.send\<close> and \<open>res.json\<close>,
  and only then signals continuation; it raises nothing and leaves both write slots of the
  response holding its wrappers.  When the handler afterwards raw-writes a string \<open>s\<close>
  while the store is still ready, the wrapper first passes \<open>set(k, s)\<close> to the store, with a
  time to live of 60 when the route's \<open>expire\<close> is omitted or falsy and of the configured
  \<open>expire\<close> otherwise, and then calls the function that was in \<open>res.send\<close> when the
  middleware ran, with the same \<open>s\<close>.  When that function is the host's own raw write, the
  write returns with \<open>s\<close> delivered to the caller.
\<close>

theorem miss_path_end_to_end:
  fixes c :: cache_config
  defines "ttl \<equiv> (case expire c of None \<Rightarrow> Num 60 | Some e \<Rightarrow> if e = Num 0 \<or> e = NaN then Num 60 else e)"
  assumes "redis w = Some cl" and "isReady cl"
    and "cacheSpec r = Some c"
    and "generateCacheKey (currentLogLevel w) r req = (evs, Inr (Some k))"
    and "contents cl k = None \<or> contents cl k = Some []"
    and "\<not> not_ready w'"
  shows "middleware fuel api w r req res =
           Some ([StoreGet k] @ log (currentLogLevel w) (''Cache miss for key: '' @ k) Debug
                   @ [Assign Slot_sendResponse (send res),
                      Assign Slot_send (Cache_send r k),
                      Assign Slot_json (Cache_json r k (json res)),
                      Next],
                 Inr (install r k res)) \<and>
         send (install r k res) = Cache_send r k \<and>
         json (install r k res) = Cache_json r k (json res) \<and>
         invoke (Suc n) api w' (install r k res) (send (install r k res)) (JStr s) =
           (case invoke n api w' (install r k res) (send res) (JStr s) of
              None \<Rightarrow> None
            | Some (evs', err) \<Rightarrow>
                Some ([StoreSet k (JStr s) ttl]
                        @ log (currentLogLevel w') (''Data cached for key: '' @ k) Debug @ evs',
                      err)) \<and>
         (send res = Host_send \<longrightarrow>
            invoke (Suc (Suc n)) api w' (install r k res) (send (install r k res)) (JStr s) =
              Some ([StoreSet k (JStr s) ttl]
                      @ log (currentLogLevel w') (''Data cached for key: '' @ k) Debug
                      @ [RawWrite (JStr s)],
                    None))"
proof -
  have t: "expire_or_default r = ttl"
    unfolding ttl_def by (rule expire_or_default_cases) fact
  have i: "send (install r k res) = Cache_send r k"
    and j: "json (install r k res) = Cache_json r k (json res)"
    and o: "sendResponse (install r k res) = Some (send res)"
    by (simp_all add: install_def)
  have m: "middleware fuel api w r req res =
           Some ([StoreGet k] @ log (currentLogLevel w) (''Cache miss for key: '' @ k) Debug
                   @ [Assign Slot_sendResponse (send res),
                      Assign Slot_send (Cache_send r k),
                      Assign Slot_json (Cache_json r k (json res)),
                      Next],
                 Inr (install r k res))"
    using middleware_miss [OF assms(2,3,5,6), of fuel api res]
    by (simp add: install_events_def)
  have g: "\<And>n. invoke (Suc n) api w' (install r k res) (Cache_send r k) (JStr s) =
           (case invoke n api w' (install r k res) (send res) (JStr s) of
              None \<Rightarrow> None
            | Some (evs', err) \<Rightarrow>
                Some ([StoreSet k (JStr s) ttl]
                        @ log (currentLogLevel w') (''Data cached for key: '' @ k) Debug @ evs',
                      err))"
    using invoke_Cache_send_ready [OF assms(7) o, of _ api r k "JStr s"]
    by (simp only: t typeof_object.simps if_False)
  have h: "send res = Host_send \<longrightarrow>
            invoke (Suc (Suc n)) api w' (install r k res) (Cache_send r k) (JStr s) =
              Some ([StoreSet k (JStr s) ttl]
                      @ log (currentLogLevel w') (''Data cached for key: '' @ k) Debug
                      @ [RawWrite (JStr s)],
                    None)"
  proof
    assume hs: "send res = Host_send"
    show "invoke (Suc (Suc n)) api w' (install r k res) (Cache_send r k) (JStr s) =
              Some ([StoreSet k (JStr s) ttl]
                      @ log (currentLogLevel w') (''Data cached for key: '' @ k) Debug
                      @ [RawWrite (JStr s)],
                    None)"
      unfolding g [of "Suc n"] hs by simp
  qed
  show ?thesis
    unfolding i using m j g [of n] h by (simp only: simp_thms)
qed

theorem miss_path_end_to_end_witness:
  "middleware 0 example_api (world_ready Map.empty) route_users_default req_users res_host =
     Some ([StoreGet ''cache:GET:/users'',
            Console Debug ''Cache miss for key: cache:GET:/users'',
            Assign Slot_sendResponse Host_send,
            Assign Slot_send (Cache_send route_users_default ''cache:GET:/users''),
            Assign Slot_json (Cache_json route_users_default ''cache:GET:/users'' Host_json),
            Next],
           Inr (install route_users_default ''cache:GET:/users'' res_host)) \<and>
   invoke (Suc (Suc 0)) example_api (world_ready Map.empty)
     (install route_users_default ''cache:GET:/users'' res_host)
     (send (install route_users_default ''cache:GET:/users'' res_host)) (JStr ''hello'') =
     Some ([StoreSet ''cache:GET:/users'' (JStr ''hello'') (Num 60),
            Console Debug ''Data cached for key: cache:GET:/users'',
            RawWrite (JStr ''hello'')], None) \<and>
   invoke (Suc (Suc 0)) example_api (world_ready Map.empty)
     (install route_users ''cache:GET:/users'' res_host)
     (send (install route_users ''cache:GET:/users'' res_host)) (JStr ''hello'') =
     Some ([StoreSet ''cache:GET:/users'' (JStr ''hello'') (Num 120),
            Console Debug ''Data cached for key: cache:GET:/users'',
            RawWrite (JStr ''hello'')], None)"
proof -
  have i: "isReady \<lparr>isReady = True, contents = Map.empty :: string \<rightharpoonup> string\<rparr>"
    by simp
  have cd: "cacheSpec route_users_default = Some \<lparr>expire = None, type = ''always'', customCookie = None\<rparr>"
    by (simp add: route_users_default_def)
  have cu: "cacheSpec route_users = Some \<lparr>expire = Some (Num 120), type = ''always'', customCookie = None\<rparr>"
    by (simp add: route_users_def)
  have e: "contents \<lparr>isReady = True, contents = Map.empty :: string \<rightharpoonup> string\<rparr> ''cache:GET:/users'' = None
             \<or> contents \<lparr>isReady = True, contents = Map.empty :: string \<rightharpoonup> string\<rparr> ''cache:GET:/users'' = Some []"
    by simp
  have s: "send res_host = Host_send" and j: "json res_host = Host_json"
    by (simp_all add: res_host_def)
  have l: "\<And>m. log LL_debug m Debug = [Console Debug m]"
    by (simp add: log_def)
  note d = miss_path_end_to_end [where req = req_users and fuel = 0 and api = example_api
      and res = res_host and n = 0 and s = "''hello''",
      OF world_ready_facts(1) i cd users_key(2) e world_ready_facts(3)]
  note u = miss_path_end_to_end [where req = req_users and fuel = 0 and api = example_api
      and res = res_host and n = 0 and s = "''hello''",
      OF world_ready_facts(1) i cu users_key(1) e world_ready_facts(3)]
  have a: "middleware 0 example_api (world_ready Map.empty) route_users_default req_users res_host =
     Some ([StoreGet ''cache:GET:/users'',
            Console Debug ''Cache miss for key: cache:GET:/users'',
            Assign Slot_sendResponse Host_send,
            Assign Slot_send (Cache_send route_users_default ''cache:GET:/users''),
            Assign Slot_json (Cache_json route_users_default ''cache:GET:/users'' Host_json),
            Next],
           Inr (install route_users_default ''cache:GET:/users'' res_host))"
    using d [THEN conjunct1] by (simp add: world_ready_facts(2) l s j)
  have b: "invoke (Suc (Suc 0)) example_api (world_ready Map.empty)
     (install route_users_default ''cache:GET:/users'' res_host)
     (send (install route_users_default ''cache:GET:/users'' res_host)) (JStr ''hello'') =
     Some ([StoreSet ''cache:GET:/users'' (JStr ''hello'') (Num 60),
            Console Debug ''Data cached for key: cache:GET:/users'',
            RawWrite (JStr ''hello'')], None)"
    using d [THEN conjunct2, THEN conjunct2, THEN conjunct2, THEN conjunct2, THEN mp, OF s]
    by (simp only: world_ready_facts(2) l cache_config.simps option.case append.simps)
  have c: "invoke (Suc (Suc 0)) example_api (world_ready Map.empty)
     (install route_users ''cache:GET:/users'' res_host)
     (send (install route_users ''cache:GET:/users'' res_host)) (JStr ''hello'') =
     Some ([StoreSet ''cache:GET:/users'' (JStr ''hello'') (Num 120),
            Console Debug ''Data cached for key: cache:GET:/users'',
            RawWrite (JStr ''hello'')], None)"
    using u [THEN conjunct2, THEN conjunct2, THEN conjunct2, THEN conjunct2, THEN mp, OF s]
    by (simp only: world_ready_facts(2) l cache_config.simps option.case append.simps
        jsnum.simps rel_simps simp_thms if_False)
  from a b c show ?thesis
    by (intro conjI)
qed

section \<open>The hit path\<close>

lemma Next_notin_log: "Next \<notin> set (log lvl m sev)"
  by (simp add: log_def)

text \<open>
  Claim C5.  With the store ready, a key \<open>k\<close> derived for the route and the lookup of
  \<open>k\<close> answering a non-empty value \<open>d\<close>, the middleware sets the header
  \<open>X-Cache: HIT\<close> and then looks at the first character of \<open>d\<close>: for \<open>{\<close> or \<open>[\<close> it
  applies \<open>JSON.parse\<close> to \<open>d\<close> and passes the parsed value to the structured-write entry
  point, for any other character it passes \<open>d\<close> itself to the raw-write entry point.  The
  continuation is never signalled.  (Where \<open>JSON.parse\<close> raises, nothing is written and the
  error escapes; the continuation is not signalled then either.)  The response is one whose
  entry points are the host's own.
\<close>

text \<open>With the store ready, no writer signals continuation, however the wrappers are stacked.\<close>

lemma invoke_ready_no_Next:
  assumes "\<not> not_ready w"
  shows "invoke n api w res f body = Some (evs, err) \<Longrightarrow> Next \<notin> set evs"
proof (induction n arbitrary: f body evs err)
  case 0
  then show ?case by simp
next
  case (Suc n)
  show ?case
  proof (cases f)
    case Host_send
    with Suc.prems show ?thesis by auto
  next
    case Host_json
    with Suc.prems show ?thesis by auto
  next
    case (Cache_send r k)
    with Suc.prems assms show ?thesis
      by (auto simp add: Let_def Next_notin_log split: option.splits dest: Suc.IH)
  next
    case (Cache_json r k g)
    with Suc.prems assms show ?thesis
      by (auto simp add: Let_def Next_notin_log split: option.splits dest: Suc.IH)
  qed
qed

text \<open>
  Claim C5, as stated: a stored value that starts with \<open>{\<close> or \<open>[\<close> is parsed and written
  through the structured-write entry point.  It fails for a value that starts so and is not
  JSON text, such as the raw body \<open>[INFO] ok\<close> that the raw-write wrapper stored as it was:
  \<open>JSON.parse\<close> raises, and after the header nothing is written.
\<close>

theorem unparseable_stored_value_counterexample:
  "startsWith ''[INFO] ok'' CHR ''['' \<and>
   JSON_parse example_api ''[INFO] ok'' = None \<and>
   middleware (Suc 0) example_api (world_ready [''cache:GET:/users'' \<mapsto> ''[INFO] ok''])
     route_users req_users res_host =
     Some ([StoreGet ''cache:GET:/users'',
            Console Debug ''Cache hit for key: cache:GET:/users'',
            SetHeader ''X-Cache'' ''HIT''], Inl SyntaxError)"
  by (simp add: middleware_def world_ready_def users_key log_def Let_def example_api_def)

text \<open>
  Claim C5, amended.  With the store ready, a key \<open>k\<close> derived for the route and the lookup
  of \<open>k\<close> answering a non-empty value \<open>d\<close>, the middleware sets the header
  \<open>X-Cache: HIT\<close> and then looks at the first character of \<open>d\<close>.  For \<open>{\<close> or \<open>[\<close>, and
  \<open>d\<close> a text that \<open>JSON.parse\<close> accepts, it calls the structured-write entry point
  \<open>res.json\<close> with the parsed value; for any other first character it calls the raw-write
  entry point \<open>res.send\<close> with \<open>d\<close> itself.  Whatever functions sit in those slots, the
  continuation is never signalled; when they are the host's own, the run returns with
  exactly that one write made.
\<close>

theorem hit_path_end_to_end:
  assumes "redis w = Some cl" and "isReady cl"
    and "generateCacheKey (currentLogLevel w) r req = (evs, Inr (Some k))"
    and "contents cl k = Some d" and "d \<noteq> []"
    and "startsWith d CHR ''{'' \<or> startsWith d CHR ''['' \<longrightarrow> JSON_parse api d = Some v"
  shows "middleware fuel api w r req res =
           (case (if startsWith d CHR ''{'' \<or> startsWith d CHR ''[''
                  then invoke fuel api w res (json res) v
                  else invoke fuel api w res (send res) (JStr d)) of
              None \<Rightarrow> None
            | Some (evs', err) \<Rightarrow>
                Some ([StoreGet k] @ log (currentLogLevel w) (''Cache hit for key: '' @ k) Debug
                        @ [SetHeader ''X-Cache'' ''HIT''] @ evs',
                      case err of None \<Rightarrow> Inr res | Some e \<Rightarrow> Inl e)) \<and>
         (\<forall>tr st. middleware fuel api w r req res = Some (tr, st) \<longrightarrow> Next \<notin> set tr) \<and>
         (send res = Host_send \<and> json res = Host_json \<longrightarrow>
            middleware (Suc n) api w r req res =
              Some ([StoreGet k] @ log (currentLogLevel w) (''Cache hit for key: '' @ k) Debug
                      @ [SetHeader ''X-Cache'' ''HIT'']
                      @ [if startsWith d CHR ''{'' \<or> startsWith d CHR ''[''
                         then StructuredWrite v else RawWrite (JStr d)],
                    Inr res))"
proof -
  have e: "evs = []" and k: "k \<noteq> []"
    using generateCacheKey_key [OF assms(3)] by simp_all
  have r: "\<not> not_ready w"
    using assms(1,2) by (simp add: not_ready_def)
  have m: "\<And>fuel. middleware fuel api w r req res =
           (case (if startsWith d CHR ''{'' \<or> startsWith d CHR ''[''
                  then invoke fuel api w res (json res) v
                  else invoke fuel api w res (send res) (JStr d)) of
              None \<Rightarrow> None
            | Some (evs', err) \<Rightarrow>
                Some ([StoreGet k] @ log (currentLogLevel w) (''Cache hit for key: '' @ k) Debug
                        @ [SetHeader ''X-Cache'' ''HIT''] @ evs',
                      case err of None \<Rightarrow> Inr res | Some e \<Rightarrow> Inl e))"
    using assms(1,2,4-6) k
    by (auto simp add: middleware_def assms(3) e Let_def split: option.splits)
  have nx: "\<forall>tr st. middleware fuel api w r req res = Some (tr, st) \<longrightarrow> Next \<notin> set tr"
    unfolding m
    by (auto simp add: Next_notin_log split: option.splits if_splits
        dest: invoke_ready_no_Next [OF r])
  have h: "send res = Host_send \<and> json res = Host_json \<longrightarrow>
            middleware (Suc n) api w r req res =
              Some ([StoreGet k] @ log (currentLogLevel w) (''Cache hit for key: '' @ k) Debug
                      @ [SetHeader ''X-Cache'' ''HIT'']
                      @ [if startsWith d CHR ''{'' \<or> startsWith d CHR ''[''
                         then StructuredWrite v else RawWrite (JStr d)],
                    Inr res)"
    unfolding m by simp
  from m [of fuel] nx h show ?thesis
    by (intro conjI)
qed

theorem hit_path_end_to_end_witness:
  "middleware (Suc 0) example_api (world_ready [''cache:GET:/users'' \<mapsto> ''cached-body''])
     route_users req_users res_host =
     Some ([StoreGet ''cache:GET:/users'',
            Console Debug ''Cache hit for key: cache:GET:/users'',
            SetHeader ''X-Cache'' ''HIT'',
            RawWrite (JStr ''cached-body'')], Inr res_host) \<and>
   middleware (Suc 0) example_api (world_ready [''cache:GET:/users'' \<mapsto> ''{}''])
     route_users req_users res_host =
     Some ([StoreGet ''cache:GET:/users'',
            Console Debug ''Cache hit for key: cache:GET:/users'',
            SetHeader ''X-Cache'' ''HIT'',
            StructuredWrite (JObj [])], Inr res_host)"
proof -
  have i: "\<And>m :: string \<rightharpoonup> string. isReady \<lparr>isReady = True, contents = m\<rparr>"
    by simp
  have s: "send res_host = Host_send \<and> json res_host = Host_json"
    by (simp add: res_host_def)
  have l: "\<And>m. log LL_debug m Debug = [Console Debug m]"
    by (simp add: log_def)
  have d1: "contents \<lparr>isReady = True, contents = [''cache:GET:/users'' \<mapsto> ''cached-body'']\<rparr> ''cache:GET:/users''
              = Some ''cached-body''"
    by simp
  have n1: "''cached-body'' \<noteq> []"
    by simp
  have p1: "startsWith ''cached-body'' CHR ''{'' \<or> startsWith ''cached-body'' CHR ''[''
              \<longrightarrow> JSON_parse example_api ''cached-body'' = Some JNull"
    by simp
  have d2: "contents \<lparr>isReady = True, contents = [''cache:GET:/users'' \<mapsto> ''{}'']\<rparr> ''cache:GET:/users''
              = Some ''{}''"
    by simp
  have n2: "''{}'' \<noteq> []"
    by simp
  have p2: "startsWith ''{}'' CHR ''{'' \<or> startsWith ''{}'' CHR ''[''
              \<longrightarrow> JSON_parse example_api ''{}'' = Some (JObj [])"
    by (simp add: example_api_def)
  have a: "middleware (Suc 0) example_api (world_ready [''cache:GET:/users'' \<mapsto> ''cached-body''])
     route_users req_users res_host =
     Some ([StoreGet ''cache:GET:/users'',
            Console Debug ''Cache hit for key: cache:GET:/users'',
            SetHeader ''X-Cache'' ''HIT'',
            RawWrite (JStr ''cached-body'')], Inr res_host)"
    using hit_path_end_to_end [where req = req_users and res = res_host and n = 0,
        OF world_ready_facts(1) i users_key(1) d1 n1 p1,
        THEN conjunct2, THEN conjunct2, THEN mp, OF s]
    by (simp add: world_ready_facts(2) l)
  have b: "middleware (Suc 0) example_api (world_ready [''cache:GET:/users'' \<mapsto> ''{}''])
     route_users req_users res_host =
     Some ([StoreGet ''cache:GET:/users'',
            Console Debug ''Cache hit for key: cache:GET:/users'',
            SetHeader ''X-Cache'' ''HIT'',
            StructuredWrite (JObj [])], Inr res_host)"
    using hit_path_end_to_end [where req = req_users and res = res_host and n = 0,
        OF world_ready_facts(1) i users_key(1) d2 n2 p2,
        THEN conjunct2, THEN conjunct2, THEN mp, OF s]
    by (simp add: world_ready_facts(2) l)
  from a b show ?thesis
    by (rule conjI)
qed

section \<open>Auth-token discovery\<close>

text \<open>\<open>find\<close> over the values of the listed names, by the position of the first defined one.\<close>

lemma find_defined_first:
  assumes "i < length xs" and "\<forall>j<i. f (xs ! j) = JUndefined" and "f (xs ! i) \<noteq> JUndefined"
  shows "find_defined (map f xs) = f (xs ! i)"
proof -
  have "find (\<lambda>v. v \<noteq> JUndefined) (map f xs) = Some (f (xs ! i))"
    unfolding find_Some_iff using assms by (intro exI [of _ i]) simp
  then show ?thesis
    by (simp add: find_defined_def)
qed

lemma find_defined_none:
  assumes "\<forall>x \<in> set xs. f x = JUndefined"
  shows "find_defined (map f xs) = JUndefined"
proof -
  have "find (\<lambda>v. v \<noteq> JUndefined) (map f xs) = None"
    unfolding find_None_iff using assms by simp
  then show ?thesis
    by (simp add: find_defined_def)
qed

text \<open>With no listed cookie defined the cookie pass yields \<open>null\<close>.\<close>

lemma cookie_pass_none_defined:
  assumes "cookies req = Some c"
    and "\<forall>name \<in> set commonAuthCookieNames. get_prop c name = JUndefined"
  shows "cookie_pass req = Inr JNull"
  using assms(1) find_defined_none [OF assms(2)]
  by (simp add: cookie_pass_def or_null_def)

text \<open>
  Claim C3, as stated: the cookie pass returns the value of the first listed cookie that is
  defined, falsy values such as the empty string included.  It fails on a request whose
  \<open>authToken\<close> cookie is the empty string: the scan does stop at that cookie, but
  \<open>|| null\<close> then turns the empty string into \<open>null\<close>, so the cookie pass yields
  \<open>null\<close> where the claim has the empty string.
\<close>

theorem cookie_pass_empty_string_counterexample:
  "cookies req_empty_token = Some cookies_empty_token \<and>
   spec_cookie_pass cookies_empty_token = JStr [] \<and>
   cookie_pass req_empty_token = Inr JNull \<and>
   cookie_pass req_empty_token \<noteq> Inr (spec_cookie_pass cookies_empty_token)"
  by (simp add: req_empty_token_def cookies_empty_token_def spec_cookie_pass_def cookie_pass_def
      commonAuthCookieNames_def get_prop_def find_defined_def or_null_def)

text \<open>
  Claim C3, amended.  For a request that has a cookie mapping, the cookie pass stops at the
  first name of the fixed ordered list whose value is not \<open>undefined\<close>: only
  \<open>undefined\<close> makes the scan move on.  When that value is truthy it is the result of the
  cookie pass and of auth-token discovery.  When it is falsy, such as the empty string, the
  cookie pass yields \<open>null\<close>, no later cookie is consulted, and the result of auth-token
  discovery is that of the header pass.
\<close>

theorem cookie_pass_first_defined:
  assumes "cookies req = Some c"
    and "i < length commonAuthCookieNames"
    and "\<forall>j<i. get_prop c (commonAuthCookieNames ! j) = JUndefined"
    and "get_prop c (commonAuthCookieNames ! i) = v" and "v \<noteq> JUndefined"
  shows "cookie_pass req = Inr (if falsy v then JNull else v) \<and>
         getAuthCookie req = Inr (if falsy v then header_pass req else v)"
proof -
  have "find_defined (map (\<lambda>name. get_prop c name) commonAuthCookieNames) = v"
    using find_defined_first [of i commonAuthCookieNames "\<lambda>name. get_prop c name"] assms(2-5)
    by simp
  then have p: "cookie_pass req = Inr (if falsy v then JNull else v)"
    using assms(1) by (simp add: cookie_pass_def or_null_def)
  then show ?thesis
    by (simp add: getAuthCookie_def)
qed

theorem cookie_pass_first_defined_witness:
  "cookie_pass req_jwt = Inr (JStr ''abc'') \<and>
   getAuthCookie req_jwt = Inr (JStr ''abc'') \<and>
   cookie_pass req_empty_token = Inr JNull \<and>
   getAuthCookie req_empty_token = Inr (JStr ''Bearer h'')"
proof -
  have c1: "cookies req_jwt = Some \<lparr>own = [''jwt'' \<mapsto> JStr ''abc''], inherits = True\<rparr>"
    by (simp add: req_jwt_def)
  have i1: "4 < length commonAuthCookieNames"
    by (simp add: commonAuthCookieNames_def)
  have u1: "\<forall>j<4. get_prop \<lparr>own = [''jwt'' \<mapsto> JStr ''abc''], inherits = True\<rparr>
                     (commonAuthCookieNames ! j) = JUndefined"
    by (simp add: commonAuthCookieNames_def get_prop_def Object_prototype_def numeral_eq_Suc
        less_Suc_eq)
  have v1: "get_prop \<lparr>own = [''jwt'' \<mapsto> JStr ''abc''], inherits = True\<rparr>
              (commonAuthCookieNames ! 4) = JStr ''abc''"
    by (simp add: commonAuthCookieNames_def get_prop_def)
  have d1: "JStr ''abc'' \<noteq> JUndefined"
    by simp
  have c2: "cookies req_empty_token = Some cookies_empty_token"
    by (simp add: req_empty_token_def)
  have i2: "0 < length commonAuthCookieNames"
    by (simp add: commonAuthCookieNames_def)
  have u2: "\<forall>j<0. get_prop cookies_empty_token (commonAuthCookieNames ! j) = JUndefined"
    by simp
  have v2: "get_prop cookies_empty_token (commonAuthCookieNames ! 0) = JStr []"
    by (simp add: commonAuthCookieNames_def get_prop_def cookies_empty_token_def)
  have d2: "JStr [] \<noteq> JUndefined"
    by simp
  have h: "header_pass req_empty_token = JStr ''Bearer h''"
    by code_simp
  have a: "cookie_pass req_jwt = Inr (JStr ''abc'') \<and> getAuthCookie req_jwt = Inr (JStr ''abc'')"
    using cookie_pass_first_defined [OF c1 i1 u1 v1 d1] by simp
  have b: "cookie_pass req_empty_token = Inr JNull \<and> getAuthCookie req_empty_token = Inr (JStr ''Bearer h'')"
    using cookie_pass_first_defined [OF c2 i2 u2 v2 d2] by (simp add: h)
  from a b show ?thesis
    by simp
qed

section \<open>Failure paths\<close>

text \<open>
  Claim C1 says that no failure path of the middleware raises.  The code raises on two of
  the paths the claim lists.  The first: \<open>getAuthCookie\<close> reads \<open>req.cookies[name]\<close>
  without the \<open>req.cookies || {}\<close> guard that the \<open>per-custom-cookie\<close> case has, so for a
  \<open>per-auth-token\<close> route and a request without a cookie mapping a \<open>TypeError\<close> escapes
  the middleware: the continuation is not signalled and nothing is written, although the
  request carries an \<open>Authorization\<close> header.
\<close>

theorem missing_cookie_mapping_raises:
  "cache (world_ready Map.empty) route_profile = ([], Caching route_profile) \<and>
   run fuel api (world_ready Map.empty) (snd (cache (world_ready Map.empty) route_profile))
     req_no_cookies res_host
     = Some ([], Inl TypeError)"
proof -
  have c: "cache (world_ready Map.empty) route_profile = ([], Caching route_profile)"
    by (simp add: cache_def cacheMiddleware_def not_ready_def world_ready_def route_profile_def)
  have m: "middleware fuel api (world_ready Map.empty) route_profile req_no_cookies res_host
             = Some ([], Inl TypeError)"
    by (simp add: middleware_def world_ready_def generateCacheKey_def route_profile_def
        getAuthCookie_def cookie_pass_def req_no_cookies_def)
  show ?thesis
    by (simp add: c m)
qed

text \<open>
  The second: a stored value that starts with \<open>{\<close> or \<open>[\<close> and that \<open>JSON.parse\<close>
  rejects.  The header is set, then the \<open>SyntaxError\<close> escapes.
\<close>

lemma invalid_stored_json_raises:
  assumes "redis w = Some cl" and "isReady cl"
    and "generateCacheKey (currentLogLevel w) r req = (evs, Inr (Some k))"
    and "contents cl k = Some d"
    and "startsWith d CHR ''{'' \<or> startsWith d CHR ''[''"
    and "JSON_parse api d = None"
  shows "middleware fuel api w r req res =
           Some ([StoreGet k] @ log (currentLogLevel w) (''Cache hit for key: '' @ k) Debug
                   @ [SetHeader ''X-Cache'' ''HIT''],
                 Inl SyntaxError)"
proof -
  have e: "evs = []" and k: "k \<noteq> []"
    using generateCacheKey_key [OF assms(3)] by simp_all
  have d: "d \<noteq> []"
    using assms(5) by auto
  show ?thesis
    using assms(1,2,4-6) k d by (simp add: middleware_def assms(3) e Let_def)
qed

text \<open>
  Claim C2 says that the raw-write wrapper, finding the store not ready at write time, skips
  the store write, passes the handler's body to the caller and does not signal continuation
  again.  The code skips the store write, but then returns \<open>next()\<close>: after a miss on the
  test file's route, a raw write of \<open>hello\<close> with the store no longer ready causes the
  single event \<open>Next\<close>, and the host's raw-write entry point is never called.
\<close>

theorem send_wrapper_unready_signals_next:
  "middleware 0 example_api (world_ready Map.empty) route_users req_users res_host =
     Some ([StoreGet ''cache:GET:/users'',
            Console Debug ''Cache miss for key: cache:GET:/users'',
            Assign Slot_sendResponse Host_send,
            Assign Slot_send (Cache_send route_users ''cache:GET:/users''),
            Assign Slot_json (Cache_json route_users ''cache:GET:/users'' Host_json),
            Next],
           Inr (install route_users ''cache:GET:/users'' res_host)) \<and>
   invoke (Suc fuel) example_api world_unready
     (install route_users ''cache:GET:/users'' res_host)
     (send (install route_users ''cache:GET:/users'' res_host)) (JStr ''hello'')
     = Some ([Next], None)"
proof -
  have k: "generateCacheKey LL_debug route_users req_users = ([], Inr (Some ''cache:GET:/users''))"
    by (simp add: generateCacheKey_def route_users_def)
  have a: "middleware 0 example_api (world_ready Map.empty) route_users req_users res_host =
     Some ([StoreGet ''cache:GET:/users'',
            Console Debug ''Cache miss for key: cache:GET:/users'',
            Assign Slot_sendResponse Host_send,
            Assign Slot_send (Cache_send route_users ''cache:GET:/users''),
            Assign Slot_json (Cache_json route_users ''cache:GET:/users'' Host_json),
            Next],
           Inr (install route_users ''cache:GET:/users'' res_host))"
    by (simp add: middleware_def world_ready_def k log_def install_events_def res_host_def Let_def)
  have b: "invoke (Suc fuel) example_api world_unready
     (install route_users ''cache:GET:/users'' res_host)
     (send (install route_users ''cache:GET:/users'' res_host)) (JStr ''hello'')
     = Some ([Next], None)"
    by (simp add: install_def not_ready_def world_unready_def)
  from a b show ?thesis
    by (rule conjI)
qed

end
